theory Spec2Isabelle
  imports Main "HOL-Library.Char_ord" "HOL-Library.List_Lexorder"
begin

section \<open>JavaScript values\<close>

text \<open>
  The values the service handles at run time: what \<^verbatim>\<open>JSON.parse\<close> yields, \<^verbatim>\<open>undefined\<close>
  for a field that is not there, and a \<^verbatim>\<open>Buffer\<close>. A Number is represented by the text
  that \<^verbatim>\<open>String\<close> yields for it (\<^verbatim>\<open>42\<close> is \<open>Num ''42''\<close>): the service converts
  numbers to strings and tests them for truthiness, and does nothing else with them.
  An object is the list of its own properties, a Buffer the text it holds.
\<close>

type_synonym number = string

datatype jsval =
    Undefined
  | Null
  | Bool bool
  | Num number
  | Str string
  | Arr "jsval list"
  | Obj "(string \<times> jsval) list"
  | Buffer string

text \<open>
  What an operation throws: the rejection of the first fetch of the registry client, and
  the TypeError of a conversion to a primitive value.
\<close>

datatype exn = FetchRejected | TypeError

text \<open>\<^verbatim>\<open>Array.prototype.join\<close> on the element texts.\<close>

fun join :: "string \<Rightarrow> string list \<Rightarrow> string" where
  "join sep [] = []"
| "join sep [x] = x"
| "join sep (x # y # ys) = x @ sep @ join sep (y # ys)"

text \<open>
  \<^verbatim>\<open>String(v)\<close>, and the text of a template literal. An array joins the texts of its
  elements with a comma, \<^verbatim>\<open>null\<close> and \<^verbatim>\<open>undefined\<close> elements giving the empty
  text. An object is \<^verbatim>\<open>[object Object]\<close>, unless it has an own property
  \<^verbatim>\<open>toString\<close>: a parsed value is never callable, the inherited \<^verbatim>\<open>valueOf\<close>
  returns the object itself, and the conversion throws a TypeError.
\<close>

fun toString :: "jsval \<Rightarrow> exn + string"
  and elements_text :: "jsval list \<Rightarrow> exn + string list" where
  "toString Undefined = Inr ''undefined''"
| "toString Null = Inr ''null''"
| "toString (Bool b) = Inr (if b then ''true'' else ''false'')"
| "toString (Num n) = Inr n"
| "toString (Str s) = Inr s"
| "toString (Arr xs) =
     (case elements_text xs of Inl x \<Rightarrow> Inl x | Inr texts \<Rightarrow> Inr (join '','' texts))"
| "toString (Obj kvs) =
     (if map_of kvs ''toString'' = None then Inr ''[object Object]'' else Inl TypeError)"
| "toString (Buffer b) = Inr b"
| "elements_text [] = Inr []"
| "elements_text (v # vs) =
     (case (if v = Undefined \<or> v = Null then Inr [] else toString v) of
        Inl x \<Rightarrow> Inl x
      | Inr t \<Rightarrow>
          (case elements_text vs of Inl x \<Rightarrow> Inl x | Inr ts \<Rightarrow> Inr (t # ts)))"

text \<open>Truthiness: \<^verbatim>\<open>!v\<close> is \<open>\<not> truthy v\<close>. The falsy numbers are 0, -0 and NaN.\<close>

fun truthy :: "jsval \<Rightarrow> bool" where
  "truthy Undefined = False"
| "truthy Null = False"
| "truthy (Bool b) = b"
| "truthy (Num n) = (n \<noteq> ''0'' \<and> n \<noteq> ''NaN'')"
| "truthy (Str s) = (s \<noteq> [])"
| "truthy (Arr xs) = True"
| "truthy (Obj kvs) = True"
| "truthy (Buffer b) = True"

text \<open>\<^verbatim>\<open>v.name\<close> for a property name that no prototype defines, on a truthy value.\<close>

fun get_prop :: "jsval \<Rightarrow> string \<Rightarrow> jsval" where
  "get_prop (Obj kvs) name = (case map_of kvs name of Some v \<Rightarrow> v | None \<Rightarrow> Undefined)"
| "get_prop v name = Undefined"

text \<open>\<^verbatim>\<open>row[i]\<close> on an array: \<^verbatim>\<open>undefined\<close> past the end.\<close>

definition at_index :: "jsval list \<Rightarrow> nat \<Rightarrow> jsval" where
  "at_index xs i = (if i < length xs then xs ! i else Undefined)"

text \<open>\<^verbatim>\<open>v ?? d\<close>\<close>

definition nullish :: "jsval \<Rightarrow> jsval \<Rightarrow> jsval" where
  "nullish v d = (if v = Undefined \<or> v = Null then d else v)"

text \<open>
  \<^verbatim>\<open>ToPrimitive\<close> in a comparison, as far as it yields a string: a string is itself;
  an array, an object and a Buffer are converted as by \<^verbatim>\<open>String\<close>, which may throw;
  the other values are primitives that are not strings.
\<close>

fun primitive_text :: "jsval \<Rightarrow> exn + string option" where
  "primitive_text (Str s) = Inr (Some s)"
| "primitive_text (Arr xs) =
     (case toString (Arr xs) of Inl x \<Rightarrow> Inl x | Inr s \<Rightarrow> Inr (Some s))"
| "primitive_text (Obj kvs) =
     (case toString (Obj kvs) of Inl x \<Rightarrow> Inl x | Inr s \<Rightarrow> Inr (Some s))"
| "primitive_text (Buffer b) =
     (case toString (Buffer b) of Inl x \<Rightarrow> Inl x | Inr s \<Rightarrow> Inr (Some s))"
| "primitive_text v = Inr None"

text \<open>
  \<^verbatim>\<open>v >= today\<close> and \<^verbatim>\<open>v <= today\<close>, where \<^verbatim>\<open>today\<close> is the date part of
  \<^verbatim>\<open>toISOString()\<close>. Two strings are compared code unit by code unit (the order of
  \<^typ>\<open>string\<close>). Otherwise both sides are converted to numbers; the date text is not a
  numeric literal, its number is NaN, and every comparison with NaN is false.
\<close>

definition ge_today :: "jsval \<Rightarrow> string \<Rightarrow> exn + bool" where
  "ge_today v today =
     (case primitive_text v of
        Inl x \<Rightarrow> Inl x
      | Inr (Some s) \<Rightarrow> Inr (today \<le> s)
      | Inr None \<Rightarrow> Inr False)"

definition le_today :: "jsval \<Rightarrow> string \<Rightarrow> exn + bool" where
  "le_today v today =
     (case primitive_text v of
        Inl x \<Rightarrow> Inl x
      | Inr (Some s) \<Rightarrow> Inr (s \<le> today)
      | Inr None \<Rightarrow> Inr False)"

subsection \<open>String methods\<close>

fun find_sub :: "string \<Rightarrow> string \<Rightarrow> nat \<Rightarrow> int" where
  "find_sub needle [] k = (if needle = [] then int k else - 1)"
| "find_sub needle (c # cs) k =
     (if take (length needle) (c # cs) = needle then int k else find_sub needle cs (Suc k))"

text \<open>\<^verbatim>\<open>s.indexOf(searchString, position)\<close>\<close>

definition indexOf :: "string \<Rightarrow> string \<Rightarrow> int \<Rightarrow> int" where
  "indexOf s searchString position =
     (let p = nat (min (max position 0) (int (length s)))
      in find_sub searchString (drop p s) p)"

text \<open>\<^verbatim>\<open>s.substring(start, end)\<close>: both ends clamped into the string, swapped if needed.\<close>

definition substring :: "string \<Rightarrow> int \<Rightarrow> int \<Rightarrow> string" where
  "substring s start end' =
     (let len = int (length s);
          a = min (max start 0) len;
          b = min (max end' 0) len
      in take (nat (max a b - min a b)) (drop (nat (min a b)) s))"

text \<open>\<^verbatim>\<open>s.startsWith(prefix)\<close>\<close>

definition startsWith :: "string \<Rightarrow> string \<Rightarrow> bool" where
  "startsWith s pre = (take (length pre) s = pre)"

text \<open>\<^verbatim>\<open>s.split(sep)\<close> for a one-character separator.\<close>

fun split_on :: "char \<Rightarrow> string \<Rightarrow> string list" where
  "split_on sep [] = [] # []"
| "split_on sep (c # cs) =
     (if c = sep then [] # split_on sep cs
      else (case split_on sep cs of [] \<Rightarrow> [c] # [] | seg # segs \<Rightarrow> (c # seg) # segs))"

text \<open>\<^verbatim>\<open>segments[i]\<close> on an array of strings, as a value.\<close>

definition segment :: "string list \<Rightarrow> nat \<Rightarrow> jsval" where
  "segment segs i = (if i < length segs then Str (segs ! i) else Undefined)"

subsection \<open>Dates\<close>

text \<open>
  The clock: a \<^verbatim>\<open>Date\<close>, by its fields in UTC. \<^verbatim>\<open>toISOString()\<close> writes it as
  \<^verbatim>\<open>YYYY-MM-DDTHH:mm:ss.sssZ\<close>, and with a sign and six digits for a year past 9999.
\<close>

record datetime =
  utc_year :: nat
  utc_month :: nat
  utc_day :: nat
  utc_hours :: nat
  utc_minutes :: nat
  utc_seconds :: nat
  utc_milliseconds :: nat

definition digit :: "nat \<Rightarrow> char" where
  "digit n = char_of (48 + n)"

definition digits2 :: "nat \<Rightarrow> string" where
  "digits2 n = [digit (n div 10), digit (n mod 10)]"

definition digits3 :: "nat \<Rightarrow> string" where
  "digits3 n = digit (n div 100) # digits2 (n mod 100)"

definition digits4 :: "nat \<Rightarrow> string" where
  "digits4 n = digits2 (n div 100) @ digits2 (n mod 100)"

definition digits6 :: "nat \<Rightarrow> string" where
  "digits6 n = digits2 (n div 10000) @ digits4 (n mod 10000)"

text \<open>The text \<^verbatim>\<open>YYYY-MM-DD\<close> of a date in the years 0 to 9999.\<close>

definition iso_date :: "nat \<Rightarrow> nat \<Rightarrow> nat \<Rightarrow> string" where
  "iso_date y m d = digits4 y @ ''-'' @ digits2 m @ ''-'' @ digits2 d"

definition toISOString :: "datetime \<Rightarrow> string" where
  "toISOString t =
     (if utc_year t < 10000 then digits4 (utc_year t) else ''+'' @ digits6 (utc_year t)) @
     ''-'' @ digits2 (utc_month t) @ ''-'' @ digits2 (utc_day t) @
     ''T'' @ digits2 (utc_hours t) @ '':'' @ digits2 (utc_minutes t) @ '':'' @
     digits2 (utc_seconds t) @ ''.'' @ digits3 (utc_milliseconds t) @ ''Z''"

section \<open>The environment of one call\<close>

text \<open>
  Everything an operation reads from outside the process, fixed for the duration of one
  call: the two responses of the registry, the clock and the random source, and which
  calls to the blob store and the document store are rejected.
\<close>

datatype io_call =
    GcsSave string
  | GcsDelete string
  | DocGet string
  | DocSet string
  | DocDelete string
  | CollectionGet

record env =
  page_text :: "string option"
    \<comment> \<open>the text of the certificate database page; None when the fetch is rejected\<close>
  ajax_json :: "string \<Rightarrow> string \<Rightarrow> jsval option"
    \<comment> \<open>the parsed answer to the table query for a search value and a nonce;
        None when the fetch or \<^verbatim>\<open>JSON.parse\<close> throws\<close>
  verify_clock :: datetime
    \<comment> \<open>\<^verbatim>\<open>new Date()\<close> in verifyCertificate\<close>
  date_now :: number
    \<comment> \<open>\<^verbatim>\<open>Date.now()\<close>\<close>
  random36 :: string
    \<comment> \<open>\<^verbatim>\<open>Math.random().toString(36).slice(2, 8)\<close>\<close>
  upload_clock :: datetime
    \<comment> \<open>\<^verbatim>\<open>new Date()\<close> in uploadCertificate\<close>
  rejects :: "io_call \<Rightarrow> bool"
    \<comment> \<open>the storage calls that fail with an error other than "not found"\<close>

section \<open>The registry client\<close>

text \<open>
  \<^verbatim>\<open>verifyCertificate\<close> of certificates.service.ts. The first fetch, of the page
  that holds the nonce, is awaited outside any \<^verbatim>\<open>try\<close>: its rejection is thrown on.
  The second fetch, with \<^verbatim>\<open>JSON.parse\<close>, is inside one. The nonce is cut out of the
  page text; the search value and the nonce are the two variable parts of the query.
\<close>

definition wdtNonce_of :: "string \<Rightarrow> string" where
  "wdtNonce_of text =
     (let responsePage =
            substring text (indexOf text ''wdtNonceFrontendEdit_2'' 0) (int (length text));
          i = indexOf responsePage ''value'' 0 + 7
      in substring responsePage i (indexOf responsePage [CHR 0x22] (i + 7)))"

text \<open>\<^verbatim>\<open>new Date().toISOString().split("T")[0]\<close>\<close>

definition today_of :: "datetime \<Rightarrow> string" where
  "today_of now = hd (split_on CHR ''T'' (toISOString now))"

text \<open>
  The conjunction that verifyCertificate computes from the first row, after the
  \<^verbatim>\<open>try\<close> block. It is evaluated from left to right and stops at the first false
  conjunct; a conversion that throws ends it.
\<close>

definition validCertificate_of ::
  "jsval list \<Rightarrow> jsval list \<Rightarrow> string \<Rightarrow> string \<Rightarrow> exn + bool" where
  "validCertificate_of data row today query =
     (let until = nullish (at_index row 8) Null;
          validAfter = nullish (at_index row 7) Null
      in
        if until = Null then Inr False
        else if validAfter = Null then Inr False
        else
          (case ge_today until today of
             Inl x \<Rightarrow> Inl x
           | Inr False \<Rightarrow> Inr False
           | Inr True \<Rightarrow>
               (case le_today validAfter today of
                  Inl x \<Rightarrow> Inl x
                | Inr False \<Rightarrow> Inr False
                | Inr True \<Rightarrow>
                    if length data \<noteq> 1 then Inr False
                    else
                      (case toString (at_index row 1) of
                         Inl x \<Rightarrow> Inl x
                       | Inr subject \<Rightarrow> Inr (subject = query)))))"

definition verifyCertificate :: "env \<Rightarrow> string \<Rightarrow> exn + (jsval \<times> bool)" where
  "verifyCertificate e query =
     (case page_text e of
        None \<Rightarrow> Inl FetchRejected
      | Some text \<Rightarrow>
          (case ajax_json e query (wdtNonce_of text) of
             None \<Rightarrow> Inr (Null, False)
           | Some responseJson \<Rightarrow>
               (if \<not> truthy responseJson then Inr (Null, False)
                else case get_prop responseJson ''data'' of
                  Arr data \<Rightarrow>
                    (if length data = 0 then Inr (Null, False)
                     else case at_index data 0 of
                       Arr row \<Rightarrow>
                         (case validCertificate_of data row (today_of (verify_clock e)) query of
                            Inl x \<Rightarrow> Inl x
                          | Inr validCertificate \<Rightarrow>
                              Inr (nullish (at_index row 8) Null, validCertificate))
                     | _ \<Rightarrow> Inr (Null, False))
                | _ \<Rightarrow> Inr (Null, False))))"

section \<open>The certificate store\<close>

text \<open>
  The metadata of one upload (\<^verbatim>\<open>certMeta\<close>; the field \<^verbatim>\<open>id\<close> is \<open>cert_id\<close>
  here), and the record of one product.
\<close>

record certificate =
  cert_id :: string
  bucketPath :: string
  uploadedAt :: string
  verified :: bool
  validUntil :: jsval

record product =
  productId :: string
  certificates :: "certificate list"

text \<open>The boot-time configuration.\<close>

record config =
  USE_MOCK_STORAGE :: bool
  BUCKET_NAME :: string

text \<open>
  A JavaScript \<^verbatim>\<open>Map\<close> with string keys: the entries in insertion order. Setting a
  key that is there replaces its value in place, setting a new key appends an entry.
\<close>

type_synonym 'v js_map = "(string \<times> 'v) list"

definition Map_get :: "'v js_map \<Rightarrow> string \<Rightarrow> 'v option" where
  "Map_get m k = map_of m k"

fun Map_set :: "'v js_map \<Rightarrow> string \<Rightarrow> 'v \<Rightarrow> 'v js_map" where
  "Map_set [] k v = [(k, v)]"
| "Map_set ((k', v') # m) k v =
     (if k' = k then (k, v) # m else (k', v') # Map_set m k v)"

definition Map_delete :: "'v js_map \<Rightarrow> string \<Rightarrow> 'v js_map" where
  "Map_delete m k = filter (\<lambda>entry. fst entry \<noteq> k) m"

definition Map_values :: "'v js_map \<Rightarrow> 'v list" where
  "Map_values m = map snd m"

text \<open>
  The storage of the service: the in-memory map of the mock mode, and for the durable
  mode the documents of the Firestore collection under their document ids and the
  objects of the bucket under their names. A document holds the two fields that the
  service writes. The documents are kept in the order in which the model created them;
  Firestore enumerates a collection by document id, and nothing below depends on the
  order.
\<close>

record storage =
  mockStorage :: "product js_map"
  firestore :: "product js_map"
  bucket :: "jsval js_map"

definition empty_storage :: storage where
  "empty_storage = \<lparr>mockStorage = [], firestore = [], bucket = []\<rparr>"

text \<open>\<^verbatim>\<open>gs://${BUCKET_NAME}/\<close>\<close>

definition gs_prefix :: "config \<Rightarrow> string" where
  "gs_prefix cfg = ''gs://'' @ BUCKET_NAME cfg @ ''/''"

text \<open>
  \<^verbatim>\<open>CertificatesService.uploadCertificate\<close>. \<^verbatim>\<open>String(certificateId)\<close> and the
  verification come before the \<^verbatim>\<open>try\<close> block, and so does the conversion of
  productId: in the log message \<^verbatim>\<open>${productId}\<close> when the certificate is not valid,
  as \<^verbatim>\<open>String(productId)\<close> when it is. What they throw the upload throws. Inside
  the block every failure of a storage call ends the upload with false, keeping what was
  written before.
\<close>

definition uploadCertificate ::
  "config \<Rightarrow> env \<Rightarrow> jsval \<Rightarrow> jsval \<Rightarrow> jsval \<Rightarrow> storage \<Rightarrow> (exn + bool) \<times> storage" where
  "uploadCertificate cfg e pid file certificateId st =
     (case toString certificateId of
        Inl x \<Rightarrow> (Inl x, st)
      | Inr searchTerm \<Rightarrow>
          (case verifyCertificate e searchTerm of
             Inl x \<Rightarrow> (Inl x, st)
           | Inr (until, validCertificate) \<Rightarrow>
               (case toString pid of
                  Inl x \<Rightarrow> (Inl x, st)
                | Inr productIdStr \<Rightarrow>
                    if \<not> validCertificate then (Inr False, st)
                    else
                      let certId = date_now e @ ''-'' @ random36 e;
                          objectName =
                            ''certificates/'' @ productIdStr @ ''_'' @ certId @ ''.pdf'';
                          certMeta = \<lparr>cert_id = certId,
                                      bucketPath =
                                        (if USE_MOCK_STORAGE cfg
                                         then ''mock://certificates/'' @ objectName
                                         else gs_prefix cfg @ objectName),
                                      uploadedAt = toISOString (upload_clock e),
                                      verified = True,
                                      validUntil = until\<rparr>
                      in
                        if USE_MOCK_STORAGE cfg then
                          let existing =
                                (case Map_get (mockStorage st) productIdStr of
                                   Some p \<Rightarrow> p
                                 | None \<Rightarrow> \<lparr>productId = productIdStr, certificates = []\<rparr>);
                              pushed =
                                existing\<lparr>certificates := certificates existing @ [certMeta]\<rparr>
                          in (Inr True,
                              st\<lparr>mockStorage := Map_set (mockStorage st) productIdStr pushed\<rparr>)
                        else if rejects e (GcsSave objectName) then (Inr False, st)
                        else
                          let saved = st\<lparr>bucket := Map_set (bucket st) objectName file\<rparr> in
                          if rejects e (DocGet productIdStr) then (Inr False, saved)
                          else
                            let certs =
                                  (case Map_get (firestore saved) productIdStr of
                                     Some existing \<Rightarrow> certificates existing
                                   | None \<Rightarrow> []) @ [certMeta]
                            in
                              if rejects e (DocSet productIdStr) then (Inr False, saved)
                              else (Inr True,
                                    saved\<lparr>firestore :=
                                      Map_set (firestore saved) productIdStr
                                        \<lparr>productId = productIdStr,
                                         certificates = certs\<rparr>\<rparr>))))"

text \<open>
  \<^verbatim>\<open>CertificatesService.listCertificates\<close> and \<^verbatim>\<open>listProductCertificates\<close>:
  whatever is thrown inside, a failed read or the conversion of productId, gives the
  empty list.
\<close>

definition listCertificates :: "config \<Rightarrow> env \<Rightarrow> storage \<Rightarrow> string list" where
  "listCertificates cfg e st =
     (if USE_MOCK_STORAGE cfg then map productId (Map_values (mockStorage st))
      else if rejects e CollectionGet then []
      else map productId (Map_values (firestore st)))"

definition listProductCertificates ::
  "config \<Rightarrow> env \<Rightarrow> jsval \<Rightarrow> storage \<Rightarrow> certificate list" where
  "listProductCertificates cfg e pid st =
     (case toString pid of
        Inl x \<Rightarrow> []
      | Inr productIdStr \<Rightarrow>
          if USE_MOCK_STORAGE cfg then
            (case Map_get (mockStorage st) productIdStr of
               Some existing \<Rightarrow> certificates existing
             | None \<Rightarrow> [])
          else if rejects e (DocGet productIdStr) then []
          else
            (case Map_get (firestore st) productIdStr of
               Some existing \<Rightarrow> certificates existing
             | None \<Rightarrow> []))"

text \<open>
  Removing the object of one certificate from the bucket. An object that is not there
  (404) is ignored; any other failure is thrown on (None).
\<close>

definition delete_object ::
  "config \<Rightarrow> env \<Rightarrow> certificate \<Rightarrow> jsval js_map \<Rightarrow> jsval js_map option" where
  "delete_object cfg e cert b =
     (if bucketPath cert \<noteq> [] \<and> startsWith (bucketPath cert) (gs_prefix cfg) then
        let objectName = drop (length (gs_prefix cfg)) (bucketPath cert) in
        if rejects e (GcsDelete objectName) then None
        else Some (Map_delete b objectName)
      else Some b)"

text \<open>The loop over the certificates of a product; it stops at the first failure.\<close>

fun delete_objects ::
  "config \<Rightarrow> env \<Rightarrow> certificate list \<Rightarrow> jsval js_map \<Rightarrow> bool \<times> jsval js_map" where
  "delete_objects cfg e [] b = (True, b)"
| "delete_objects cfg e (cert # certs) b =
     (case delete_object cfg e cert b of
        None \<Rightarrow> (False, b)
      | Some b' \<Rightarrow> delete_objects cfg e certs b')"

text \<open>
  \<^verbatim>\<open>CertificatesService.deleteCertificate\<close>: deletes all certificates of a product.
  \<^verbatim>\<open>String(productId)\<close> stands before the \<^verbatim>\<open>try\<close> block. A failure of the final
  deletion of the document is swallowed.
\<close>

definition deleteCertificate ::
  "config \<Rightarrow> env \<Rightarrow> jsval \<Rightarrow> storage \<Rightarrow> (exn + bool) \<times> storage" where
  "deleteCertificate cfg e pid st =
     (case toString pid of
        Inl x \<Rightarrow> (Inl x, st)
      | Inr productIdStr \<Rightarrow>
          if USE_MOCK_STORAGE cfg then
            (Inr True, st\<lparr>mockStorage := Map_delete (mockStorage st) productIdStr\<rparr>)
          else if rejects e (DocGet productIdStr) then (Inr False, st)
          else
            let certs =
                  (case Map_get (firestore st) productIdStr of
                     Some data \<Rightarrow> certificates data
                   | None \<Rightarrow> [])
            in
              (case delete_objects cfg e certs (bucket st) of
                 (False, b) \<Rightarrow> (Inr False, st\<lparr>bucket := b\<rparr>)
               | (True, b) \<Rightarrow>
                   (Inr True,
                    st\<lparr>bucket := b,
                       firestore :=
                         (if rejects e (DocDelete productIdStr) then firestore st
                          else Map_delete (firestore st) productIdStr)\<rparr>)))"

text \<open>
  \<^verbatim>\<open>certificates.find((c) => String(c.id) === String(certId))\<close>: the callback runs
  on each certificate in turn and converts certId each time; on no certificate it does
  not run.
\<close>

fun find_certificate :: "jsval \<Rightarrow> certificate list \<Rightarrow> exn + certificate option" where
  "find_certificate certId [] = Inr None"
| "find_certificate certId (c # cs) =
     (case toString certId of
        Inl x \<Rightarrow> Inl x
      | Inr t \<Rightarrow> if cert_id c = t then Inr (Some c) else find_certificate certId cs)"

text \<open>
  The \<^verbatim>\<open>catch\<close> block of deleteProductCertificate: it writes \<^verbatim>\<open>${certId}\<close> into
  its log message, which converts certId and may throw in turn, and returns false.
\<close>

definition caught :: "jsval \<Rightarrow> storage \<Rightarrow> (exn + bool) \<times> storage" where
  "caught certId st =
     (case toString certId of Inl x \<Rightarrow> (Inl x, st) | Inr t \<Rightarrow> (Inr False, st))"

text \<open>
  \<^verbatim>\<open>CertificatesService.deleteProductCertificate\<close>: deletes a single certificate of
  a product by certificate id. \<^verbatim>\<open>String(productId)\<close> stands before the \<^verbatim>\<open>try\<close>
  block. When no certificate is left the product is deleted; in the durable backend a
  failure of that deletion is swallowed, while a failure of the read, of the deletion of
  the object and of the rewrite of the document is caught.
\<close>

definition deleteProductCertificate ::
  "config \<Rightarrow> env \<Rightarrow> jsval \<Rightarrow> jsval \<Rightarrow> storage \<Rightarrow> (exn + bool) \<times> storage" where
  "deleteProductCertificate cfg e pid certId st =
     (case toString pid of
        Inl x \<Rightarrow> (Inl x, st)
      | Inr productIdStr \<Rightarrow>
          if USE_MOCK_STORAGE cfg then
            (case Map_get (mockStorage st) productIdStr of
               None \<Rightarrow> (Inr False, st)
             | Some existing \<Rightarrow>
                 (case find_certificate certId (certificates existing) of
                    Inl x \<Rightarrow> caught certId st
                  | Inr None \<Rightarrow> (Inr False, st)
                  | Inr (Some cert) \<Rightarrow>
                      let updated =
                            filter (\<lambda>c. toString (Str (cert_id c)) \<noteq> toString certId)
                              (certificates existing)
                      in
                        if length updated > 0 then
                          (Inr True,
                           st\<lparr>mockStorage :=
                             Map_set (mockStorage st) productIdStr
                               (existing\<lparr>certificates := updated\<rparr>)\<rparr>)
                        else
                          (Inr True,
                           st\<lparr>mockStorage := Map_delete (mockStorage st) productIdStr\<rparr>)))
          else if rejects e (DocGet productIdStr) then caught certId st
          else
            (case Map_get (firestore st) productIdStr of
               None \<Rightarrow> (Inr False, st)
             | Some data \<Rightarrow>
                 (case find_certificate certId (certificates data) of
                    Inl x \<Rightarrow> caught certId st
                  | Inr None \<Rightarrow> (Inr False, st)
                  | Inr (Some cert) \<Rightarrow>
                      (case delete_object cfg e cert (bucket st) of
                         None \<Rightarrow> caught certId st
                       | Some b \<Rightarrow>
                           let removed = st\<lparr>bucket := b\<rparr>;
                               updated =
                                 filter (\<lambda>c. toString (Str (cert_id c)) \<noteq> toString certId)
                                   (certificates data)
                           in
                             if length updated > 0 then
                               (if rejects e (DocSet productIdStr) then caught certId removed
                                else
                                  (Inr True,
                                   removed\<lparr>firestore :=
                                     Map_set (firestore removed) productIdStr
                                       (data\<lparr>certificates := updated\<rparr>)\<rparr>))
                             else
                               (Inr True,
                                removed\<lparr>firestore :=
                                  (if rejects e (DocDelete productIdStr)
                                   then firestore removed
                                   else Map_delete (firestore removed) productIdStr)\<rparr>)))))"

section \<open>The request dispatcher\<close>

text \<open>
  An object literal of the service: its fields in the order written, each with its
  value.
\<close>

datatype fieldval =
    FStr string
  | FBool bool
  | FLength nat
  | FVal jsval
  | FIds "string list"
  | FCerts "certificate list"

type_synonym envelope = "(string \<times> fieldval) list"

definition has_field :: "envelope \<Rightarrow> string \<Rightarrow> bool" where
  "has_field r name = (map_of r name \<noteq> None)"

text \<open>A parameter with a default value: the default replaces \<^verbatim>\<open>undefined\<close> only.\<close>

definition defaulted :: "jsval \<Rightarrow> jsval \<Rightarrow> jsval" where
  "defaulted v d = (if v = Undefined then d else v)"

text \<open>
  \<^verbatim>\<open>CommunicationService.handleRequest\<close>. The result is \<open>Inr None\<close> when the function
  ends without a \<^verbatim>\<open>return\<close>, that is, when it returns \<^verbatim>\<open>undefined\<close>.
\<close>

definition handleRequest ::
  "config \<Rightarrow> env \<Rightarrow> jsval \<Rightarrow> jsval \<Rightarrow> jsval \<Rightarrow> jsval \<Rightarrow> storage
     \<Rightarrow> (exn + envelope option) \<times> storage" where
  "handleRequest cfg e requestType pid0 file0 certificateId0 st =
     (let pid = defaulted pid0 (Str []);
          file = defaulted file0 Null;
          certificateId = defaulted certificateId0 (Str [])
      in
        if requestType = Str ''upload'' then
          (case uploadCertificate cfg e pid file certificateId st of
             (Inl x, st') \<Rightarrow> (Inl x, st')
           | (Inr status, st') \<Rightarrow>
               (Inr (Some [(''operationType'', FStr ''uploadResponse''),
                           (''status'', FBool status)]), st'))
        else if requestType = Str ''delete'' then
          (case deleteProductCertificate cfg e pid certificateId st of
             (Inl x, st') \<Rightarrow> (Inl x, st')
           | (Inr deleteStatus, st') \<Rightarrow>
               (Inr (Some [(''operationType'', FStr ''deleteResponse''),
                           (''status'', FBool deleteStatus)]), st'))
        else if requestType = Str ''deleteProductCertificate'' then
          (case deleteProductCertificate cfg e pid certificateId st of
             (Inl x, st') \<Rightarrow> (Inl x, st')
           | (Inr deleteStatus, st') \<Rightarrow>
               (Inr (Some [(''operationType'', FStr ''deleteProductCertificateResponse''),
                           (''productId'', FVal pid),
                           (''certificateId'', FVal certificateId),
                           (''status'', FBool deleteStatus)]), st'))
        else if requestType = Str ''list'' then
          (let productIds = listCertificates cfg e st in
           (Inr (Some [(''operationType'', FStr ''listResponse''),
                       (''productIds'', FIds productIds),
                       (''total'', FLength (length productIds))]), st))
        else if requestType = Str ''listProductCertificates'' then
          (let certs = listProductCertificates cfg e pid st in
           (Inr (Some [(''operationType'', FStr ''listProductCertificatesResponse''),
                       (''productId'', FVal pid),
                       (''certificates'', FCerts certs),
                       (''total'', FLength (length certs))]), st))
        else (Inr None, st))"

section \<open>The HTTP gateway\<close>

text \<open>
  The request handler of the HTTP server, on the method and the path of the request.
  The path is \<^verbatim>\<open>url.pathname\<close> as the URL parser leaves it: percent-encoded
  characters stay encoded, and the handler does not decode them.
\<close>

record request =
  req_method :: string
    \<comment> \<open>\<^verbatim>\<open>req.method ?? "GET"\<close>\<close>
  pathname :: string
    \<comment> \<open>\<^verbatim>\<open>url.pathname\<close>\<close>

datatype http_body = Text string | Json envelope

text \<open>
  What the request handler has done when it returns: it has written a response, or (the
  upload route) it has left the response to the callback that runs at the end of the body.
\<close>

datatype http_result = Responds nat http_body | AwaitsBody

definition handler :: "config \<Rightarrow> env \<Rightarrow> request \<Rightarrow> storage \<Rightarrow> http_result \<times> storage" where
  "handler cfg e req st =
     (if pathname req = ''/healthz'' \<and> req_method req = ''GET'' then
        (Responds 200 (Text ''ok''), st)
      else if pathname req = ''/certificates/upload'' \<and> req_method req = ''POST'' then
        (AwaitsBody, st)
      else if pathname req = ''/certificates'' \<and> req_method req = ''GET'' then
        (let productIds = listCertificates cfg e st in
         (Responds 200 (Json [(''productIds'', FIds productIds),
                              (''total'', FLength (length productIds))]), st))
      else if startsWith (pathname req) ''/certificates/'' \<and> req_method req = ''GET'' then
        (let segments = split_on CHR ''/'' (pathname req);
             pid = segment segments 2
         in
           if \<not> truthy pid then
             (Responds 400 (Json [(''success'', FBool False),
                                  (''message'', FStr ''Missing productId'')]), st)
           else
             let certs = listProductCertificates cfg e pid st;
                 responseCode = (if length certs \<noteq> 0 then 200 else 404)
             in (Responds responseCode (Json [(''certificates'', FCerts certs)]), st))
      else if startsWith (pathname req) ''/certificates/'' \<and> req_method req = ''DELETE'' then
        (let segments = split_on CHR ''/'' (pathname req);
             pid = segment segments 2;
             certId = segment segments 3
         in
           if \<not> truthy pid \<or> \<not> truthy certId then
             (Responds 400 (Json [(''success'', FBool False),
                                  (''message'', FStr ''Missing productId or certId'')]), st)
           else
             (case deleteProductCertificate cfg e pid certId st of
                (Inl x, st') \<Rightarrow>
                  (Responds 500 (Json [(''error'', FStr ''Internal error'')]), st')
              | (Inr success, st') \<Rightarrow>
                  (Responds (if success then 200 else 400)
                     (Json [(''success'', FBool success)]), st')))
      else if req_method req = ''GET'' \<and> pathname req = ''/'' then
        (Responds 200 (Text ''certificate-validation service running\<newline>''), st)
      else (Responds 404 (Json [(''error'', FStr ''Not found'')]), st))"

text \<open>
  The callback of the upload route, run on the whole body. \<open>parsed\<close> is
  \<^verbatim>\<open>JSON.parse(body)\<close>, None when it throws; \<open>Buffer_from\<close> is
  \<^verbatim>\<open>Buffer.from(file, "base64")\<close> of the runtime, None when it throws.
\<close>

definition upload_on_end ::
  "config \<Rightarrow> env \<Rightarrow> (jsval \<Rightarrow> jsval option) \<Rightarrow> jsval option \<Rightarrow> storage
     \<Rightarrow> (nat \<times> http_body) \<times> storage" where
  "upload_on_end cfg e Buffer_from parsed st =
     (let internal = (500, Json [(''success'', FBool False), (''error'', FStr ''Internal error'')])
      in
        case parsed of
          None \<Rightarrow> (internal, st)
        | Some p \<Rightarrow>
            let fields = nullish p (Obj []);
                pid = get_prop fields ''productId'';
                file = get_prop fields ''file'';
                certificateId = get_prop fields ''certificateId''
            in
              if \<not> truthy pid \<or> \<not> truthy file \<or> \<not> truthy certificateId then
                ((400, Json [(''success'', FBool False),
                             (''message'', FStr ''Missing productId, file or certificateId'')]),
                 st)
              else
                (case Buffer_from file of
                   None \<Rightarrow> (internal, st)
                 | Some buffer \<Rightarrow>
                     (case uploadCertificate cfg e pid buffer certificateId st of
                        (Inl x, st') \<Rightarrow> (internal, st')
                      | (Inr success, st') \<Rightarrow>
                          ((if success then 200 else 400, Json [(''success'', FBool success)]),
                           st'))))"

section \<open>Sequences of store operations\<close>

text \<open>
  The operations that change the storage, each with the environment of its call, and the
  storage that a sequence of them leaves when the service starts on empty storage.
\<close>

datatype operation =
    Upload env jsval jsval jsval
  | DeleteProduct env jsval
  | DeleteOne env jsval jsval

fun perform :: "config \<Rightarrow> storage \<Rightarrow> operation \<Rightarrow> storage" where
  "perform cfg st (Upload e pid file certificateId) =
     snd (uploadCertificate cfg e pid file certificateId st)"
| "perform cfg st (DeleteProduct e pid) = snd (deleteCertificate cfg e pid st)"
| "perform cfg st (DeleteOne e pid certId) = snd (deleteProductCertificate cfg e pid certId st)"

definition run :: "config \<Rightarrow> operation list \<Rightarrow> storage" where
  "run cfg ops = foldl (perform cfg) empty_storage ops"

text \<open>The product records of both backends.\<close>

definition all_records :: "storage \<Rightarrow> product js_map" where
  "all_records st = mockStorage st @ firestore st"

text \<open>
  The product record under a key in the backend that the configuration selects, and its
  certificate sequence, empty for a product that is not there.
\<close>

definition product_record :: "config \<Rightarrow> storage \<Rightarrow> string \<Rightarrow> product option" where
  "product_record cfg st k =
     Map_get (if USE_MOCK_STORAGE cfg then mockStorage st else firestore st) k"

definition stored_certificates :: "config \<Rightarrow> storage \<Rightarrow> string \<Rightarrow> certificate list" where
  "stored_certificates cfg st k =
     (case product_record cfg st k of Some p \<Rightarrow> certificates p | None \<Rightarrow> [])"

definition no_empty_record :: "storage \<Rightarrow> bool" where
  "no_empty_record st = list_all (\<lambda>entry. certificates (snd entry) \<noteq> []) (all_records st)"

definition all_verified :: "storage \<Rightarrow> bool" where
  "all_verified st =
     list_all (\<lambda>entry. list_all verified (certificates (snd entry))) (all_records st)"

text \<open>Every record is stored under its own product id.\<close>

definition keyed :: "storage \<Rightarrow> bool" where
  "keyed st = list_all (\<lambda>entry. productId (snd entry) = fst entry) (all_records st)"

text \<open>The three properties of one entry together.\<close>

definition sound_entry :: "string \<times> product \<Rightarrow> bool" where
  "sound_entry entry =
     (productId (snd entry) = fst entry \<and>
      certificates (snd entry) \<noteq> [] \<and>
      list_all verified (certificates (snd entry)))"

definition sound :: "storage \<Rightarrow> bool" where
  "sound st = list_all sound_entry (all_records st)"

text \<open>
  The value in place of which an operation uses the string \<^verbatim>\<open>String(x)\<close>: that
  string, where the conversion returns.
\<close>

text \<open>\<^verbatim>\<open>String(v)\<close> returns.\<close>

definition converts :: "jsval \<Rightarrow> bool" where
  "converts v = (case toString v of Inr s \<Rightarrow> True | Inl err \<Rightarrow> False)"

definition stringified :: "jsval \<Rightarrow> jsval" where
  "stringified x = (case toString x of Inr s \<Rightarrow> Str s | Inl err \<Rightarrow> x)"

section \<open>The validity rule of the registry client, as specified\<close>

text \<open>
  Calendar dates as year, month and day. A date cell of the registry table denotes a date
  when it is a text \<^verbatim>\<open>YYYY-MM-DD\<close> of a date of the calendar.
\<close>

type_synonym date = "nat \<times> nat \<times> nat"

definition leap_year :: "nat \<Rightarrow> bool" where
  "leap_year y = (y mod 4 = 0 \<and> y mod 100 \<noteq> 0 \<or> y mod 400 = 0)"

definition days_in_month :: "nat \<Rightarrow> nat \<Rightarrow> nat" where
  "days_in_month y m =
     (if m = 2 then (if leap_year y then 29 else 28)
      else if m = 4 \<or> m = 6 \<or> m = 9 \<or> m = 11 then 30
      else 31)"

definition valid_date :: "date \<Rightarrow> bool" where
  "valid_date a =
     (case a of
        (y, m, d) \<Rightarrow> y < 10000 \<and> 1 \<le> m \<and> m \<le> 12 \<and> 1 \<le> d \<and> d \<le> days_in_month y m)"

text \<open>The first date is not after the second.\<close>

definition date_le :: "date \<Rightarrow> date \<Rightarrow> bool" where
  "date_le a b =
     (case (a, b) of
        ((y, m, d), (y', m', d')) \<Rightarrow> y < y' \<or> y = y' \<and> (m < m' \<or> m = m' \<and> d \<le> d'))"

definition is_digit :: "char \<Rightarrow> bool" where
  "is_digit c = (48 \<le> (of_char c :: nat) \<and> (of_char c :: nat) \<le> 57)"

definition digit_of :: "char \<Rightarrow> nat" where
  "digit_of c = of_char c - 48"

fun parse_iso_date :: "string \<Rightarrow> date option" where
  "parse_iso_date [y1, y2, y3, y4, s1, m1, m2, s2, d1, d2] =
     (if s1 = CHR ''-'' \<and> s2 = CHR ''-'' \<and>
         is_digit y1 \<and> is_digit y2 \<and> is_digit y3 \<and> is_digit y4 \<and>
         is_digit m1 \<and> is_digit m2 \<and> is_digit d1 \<and> is_digit d2
      then
        let a = (100 * (10 * digit_of y1 + digit_of y2) + (10 * digit_of y3 + digit_of y4),
                 10 * digit_of m1 + digit_of m2,
                 10 * digit_of d1 + digit_of d2)
        in if valid_date a then Some a else None
      else None)"
| "parse_iso_date s = None"

definition cell_date :: "jsval \<Rightarrow> date option" where
  "cell_date c = (case c of Str s \<Rightarrow> parse_iso_date s | _ \<Rightarrow> None)"

definition date_text :: "date \<Rightarrow> string" where
  "date_text a = (case a of (y, m, d) \<Rightarrow> iso_date y m d)"

text \<open>Today's date on the clock.\<close>

definition clock_date :: "datetime \<Rightarrow> date" where
  "clock_date t = (utc_year t, utc_month t, utc_day t)"

text \<open>
  The rows of a registry answer, and the rule in the words of the specification: exactly
  one row, whose subject identifier is the queried identifier as a string, with both
  dates present and today's date within them, both ends included.
\<close>

definition rows_of :: "jsval \<Rightarrow> jsval list" where
  "rows_of responseJson = (case get_prop responseJson ''data'' of Arr data \<Rightarrow> data | _ \<Rightarrow> [])"

definition spec_valid :: "jsval list \<Rightarrow> string \<Rightarrow> date \<Rightarrow> bool" where
  "spec_valid rows query today =
     (case rows of
        [Arr row] \<Rightarrow>
          toString (at_index row 1) = Inr query \<and>
          (case (cell_date (at_index row 7), cell_date (at_index row 8)) of
             (Some validFrom, Some until) \<Rightarrow> date_le validFrom today \<and> date_le today until
           | _ \<Rightarrow> False)
      | _ \<Rightarrow> False)"

text \<open>The date that is returned beside the verdict: that of the first row, or null.\<close>

definition reported_validUntil :: "jsval list \<Rightarrow> jsval" where
  "reported_validUntil rows =
     (case rows of Arr row # _ \<Rightarrow> nullish (at_index row 8) Null | _ \<Rightarrow> Null)"

text \<open>
  A date cell that is a date text or no text at all (null, absent, a number, a boolean),
  and the rows whose first row has such date cells and a subject identifier that
  converts to a string.
\<close>

definition date_cell :: "jsval \<Rightarrow> bool" where
  "date_cell c =
     (case c of
        Str s \<Rightarrow> parse_iso_date s \<noteq> None
      | Arr xs \<Rightarrow> False
      | Obj kvs \<Rightarrow> False
      | Buffer b \<Rightarrow> False
      | _ \<Rightarrow> True)"

definition dated_rows :: "jsval list \<Rightarrow> bool" where
  "dated_rows rows =
     (case rows of
        Arr row # rest \<Rightarrow>
          date_cell (at_index row 7) \<and> date_cell (at_index row 8) \<and>
          converts (at_index row 1)
      | _ \<Rightarrow> True)"

section \<open>Example inputs\<close>

definition mock_config :: config where
  "mock_config = \<lparr>USE_MOCK_STORAGE = True, BUCKET_NAME = ''made-in-portugal-certificates''\<rparr>"

definition durable_config :: config where
  "durable_config = \<lparr>USE_MOCK_STORAGE = False, BUCKET_NAME = ''made-in-portugal-certificates''\<rparr>"

definition example_certificateId :: string where
  "example_certificateId = ''ISCC-CORSIA-Cert-US201-2440920252''"

definition example_page :: string where
  "example_page =
     ''<input id='' @ [CHR 0x22] @ ''wdtNonceFrontendEdit_2'' @ [CHR 0x22] @
     '' value='' @ [CHR 0x22] @ ''a1b2c3d4e5'' @ [CHR 0x22] @ ''/>''"

text \<open>A row of the registry table with the certificate number and the two dates.\<close>

definition example_row :: "string \<Rightarrow> string \<Rightarrow> string \<Rightarrow> jsval" where
  "example_row c validFrom until =
     Arr [Str [], Str c, Str ''Owner'', Str ''Scope'', Str [], Str [], Str [],
          Str validFrom, Str until]"

definition noon :: "nat \<Rightarrow> nat \<Rightarrow> nat \<Rightarrow> nat \<Rightarrow> datetime" where
  "noon y m d ms =
     \<lparr>utc_year = y, utc_month = m, utc_day = d, utc_hours = 12, utc_minutes = 0,
      utc_seconds = 0, utc_milliseconds = ms\<rparr>"

text \<open>
  A registry that knows the one certificate, valid from 2020-01-01 until 2999-01-01, on
  2025-06-01, with storage calls that all succeed.
\<close>

definition registry_stub :: env where
  "registry_stub =
     \<lparr>page_text = Some example_page,
      ajax_json = (\<lambda>q nonce.
        if q = example_certificateId
        then Some (Obj [(''data'', Arr [example_row q ''2020-01-01'' ''2999-01-01''])])
        else Some (Obj [(''data'', Arr [])])),
      verify_clock = noon 2025 6 1 0,
      date_now = ''1748779200000'',
      random36 = ''k3j9x2'',
      upload_clock = noon 2025 6 1 500,
      rejects = (\<lambda>c. False)\<rparr>"

text \<open>
  The same registry with its dates written day first: valid from 01.01.2030 until
  31.12.2020.
\<close>

definition day_first_registry :: env where
  "day_first_registry =
     registry_stub\<lparr>ajax_json := (\<lambda>q nonce.
       Some (Obj [(''data'', Arr [example_row q ''01.01.2030'' ''31.12.2020''])]))\<rparr>"

text \<open>The registry on the last day of validity of the certificate.\<close>

definition last_day_registry :: env where
  "last_day_registry = registry_stub\<lparr>verify_clock := noon 2999 1 1 0\<rparr>"

text \<open>The registry answering with a row whose date cell has an own property toString.\<close>

definition own_toString_row :: "string \<Rightarrow> jsval" where
  "own_toString_row c =
     Arr [Str [], Str c, Str ''Owner'', Str ''Scope'', Str [], Str [], Str [],
          Str ''2020-01-01'', Obj [(''toString'', Num ''1'')] ]"

definition own_toString_registry :: env where
  "own_toString_registry =
     registry_stub\<lparr>ajax_json := (\<lambda>q nonce.
       Some (Obj [(''data'', Arr [own_toString_row q])]))\<rparr>"

text \<open>
  The environments in which the deletion, and the read, of the document of product p1
  is rejected.
\<close>

definition document_delete_rejected :: env where
  "document_delete_rejected = registry_stub\<lparr>rejects := (\<lambda>c. c = DocDelete ''p1'')\<rparr>"


definition example_upload :: "string \<Rightarrow> operation" where
  "example_upload p =
     Upload registry_stub (Str p) (Str ''JVBERi0='') (Str example_certificateId)"

definition example_certificate :: "string \<Rightarrow> string \<Rightarrow> certificate" where
  "example_certificate scheme p =
     \<lparr>cert_id = ''1748779200000-k3j9x2'',
      bucketPath = scheme @ ''certificates/'' @ p @ ''_1748779200000-k3j9x2.pdf'',
      uploadedAt = ''2025-06-01T12:00:00.500Z'',
      verified = True,
      validUntil = Str ''2999-01-01''\<rparr>"

section \<open>Basic facts\<close>

lemma split_on_not_Nil: "split_on sep s \<noteq> []"
  by (induction s) (auto split: list.splits)


lemma split_on_append:
  "sep \<notin> set a \<Longrightarrow> split_on sep (a @ sep # b) = a # split_on sep b"
  by (induction a) auto

lemma defaulted_Str: "defaulted (Str s) d = Str s"
  by (simp add: defaulted_def)

subsection \<open>Conversion to a string\<close>

lemma toString_not_FetchRejected:
  "toString v \<noteq> Inl FetchRejected" "elements_text vs \<noteq> Inl FetchRejected"
  by (induction v and vs rule: toString_elements_text.induct)
    (auto split: sum.splits if_splits)

lemma converts_Inr: "converts v \<Longrightarrow> \<exists>s. toString v = Inr s"
  by (auto simp: converts_def split: sum.splits)

lemma toString_stringified: "toString (stringified x) = toString x"
  by (cases "toString x") (simp_all add: stringified_def)

lemma find_certificate_stringified:
  "find_certificate (stringified y) cs = find_certificate y cs"
  by (induction cs) (auto simp: toString_stringified split: sum.splits)

lemma caught_stringified: "caught (stringified y) st = caught y st"
  by (simp add: caught_def toString_stringified)

subsection \<open>Maps\<close>

lemma list_all_Map_set:
  "list_all P m \<Longrightarrow> P (k, v) \<Longrightarrow> list_all P (Map_set m k v)"
  by (induction m) auto

lemma list_all_Map_delete: "list_all P m \<Longrightarrow> list_all P (Map_delete m k)"
  by (simp add: Map_delete_def list_all_iff)

lemma Map_get_holds: "Map_get m k = Some v \<Longrightarrow> list_all P m \<Longrightarrow> P (k, v)"
  by (auto simp: Map_get_def list_all_iff dest: map_of_SomeD)

lemma Map_get_Map_delete: "Map_get (Map_delete m k) k = None"
  by (auto simp: Map_get_def Map_delete_def map_of_eq_None_iff)

lemma keyed_Map_delete:
  "list_all (\<lambda>entry. productId (snd entry) = fst entry) m \<Longrightarrow>
   k \<notin> productId ` set (Map_values (Map_delete m k))"
  by (auto simp: Map_values_def Map_delete_def list_all_iff)

lemma Map_get_Map_set: "Map_get (Map_set m k v) k = Some v"
  by (induction m) (auto simp: Map_get_def)

subsection \<open>Date texts\<close>

lemma digit_less: "a < 10 \<Longrightarrow> b < 10 \<Longrightarrow> (digit a < digit b) = (a < b)"
  by (simp add: digit_def less_char_def)

lemma digit_eq: "a < 10 \<Longrightarrow> b < 10 \<Longrightarrow> (digit a = digit b) = (a = b)"
proof -
  assume "a < 10" "b < 10"
  then have "of_char (digit a) = 48 + a" "of_char (digit b) = 48 + b"
    by (simp_all add: digit_def)
  then show ?thesis by (metis add_left_cancel)
qed

lemma div_mod_less:
  fixes a b k :: nat
  shows "(a div k < b div k \<or> a div k = b div k \<and> a mod k < b mod k) = (a < b)"
proof
  assume "a div k < b div k \<or> a div k = b div k \<and> a mod k < b mod k"
  then show "a < b"
  proof
    assume "a div k < b div k"
    then have "\<not> b \<le> a"
      using div_le_mono [of b a k] by auto
    then show ?thesis by simp
  next
    assume eq: "a div k = b div k \<and> a mod k < b mod k"
    have "a = k * (a div k) + a mod k" "b = k * (b div k) + b mod k"
      by simp_all
    with eq show ?thesis by (metis add_less_cancel_left)
  qed
next
  assume less: "a < b"
  then have "a div k \<le> b div k"
    by (simp add: div_le_mono)
  moreover have "a mod k < b mod k" if "a div k = b div k"
  proof -
    have "a = k * (a div k) + a mod k" "b = k * (b div k) + b mod k"
      by simp_all
    with that less show ?thesis by (metis add_less_cancel_left)
  qed
  ultimately show "a div k < b div k \<or> a div k = b div k \<and> a mod k < b mod k"
    by (auto simp: le_less)
qed

lemma div_mod_eq:
  fixes a b k :: nat
  shows "(a div k = b div k \<and> a mod k = b mod k) = (a = b)"
  by (metis div_mult_mod_eq)

lemma digits2_less:
  assumes "a < 100" "b < 100"
  shows "(digits2 a < digits2 b) = (a < b)"
proof -
  have "a div 10 < 10" "b div 10 < 10" "a mod 10 < 10" "b mod 10 < 10"
    using assms by simp_all
  then have "(digits2 a < digits2 b) =
      (a div 10 < b div 10 \<or> a div 10 = b div 10 \<and> a mod 10 < b mod 10)"
    by (simp add: digits2_def digit_less digit_eq)
  also have "\<dots> = (a < b)"
    by (rule div_mod_less)
  finally show ?thesis .
qed

lemma digits2_eq:
  assumes "a < 100" "b < 100"
  shows "(digits2 a = digits2 b) = (a = b)"
proof -
  have "a div 10 < 10" "b div 10 < 10" "a mod 10 < 10" "b mod 10 < 10"
    using assms by simp_all
  then have "(digits2 a = digits2 b) = (a div 10 = b div 10 \<and> a mod 10 = b mod 10)"
    by (simp add: digits2_def digit_eq)
  also have "\<dots> = (a = b)"
    by (rule div_mod_eq)
  finally show ?thesis .
qed

lemma append_less_same_length:
  "length xs = length ys \<Longrightarrow> (xs @ us < ys @ vs) = (xs < ys \<or> xs = ys \<and> us < vs)"
  for xs :: "'a::linorder list"
  by (induction xs ys rule: list_induct2) auto

lemma length_digits2: "length (digits2 n) = 2"
  by (simp add: digits2_def)

lemma digits4_less:
  assumes "a < 10000" "b < 10000"
  shows "(digits4 a < digits4 b) = (a < b)"
proof -
  have "a div 100 < 100" "b div 100 < 100" "a mod 100 < 100" "b mod 100 < 100"
    using assms by simp_all
  then have "(digits4 a < digits4 b) =
      (a div 100 < b div 100 \<or> a div 100 = b div 100 \<and> a mod 100 < b mod 100)"
    by (simp add: digits4_def append_less_same_length length_digits2 digits2_less digits2_eq)
  also have "\<dots> = (a < b)"
    by (rule div_mod_less)
  finally show ?thesis .
qed

lemma digits4_eq:
  assumes "a < 10000" "b < 10000"
  shows "(digits4 a = digits4 b) = (a = b)"
proof -
  have "a div 100 < 100" "b div 100 < 100" "a mod 100 < 100" "b mod 100 < 100"
    using assms by simp_all
  then have "(digits4 a = digits4 b) = (a div 100 = b div 100 \<and> a mod 100 = b mod 100)"
    by (simp add: digits4_def length_digits2 digits2_eq)
  also have "\<dots> = (a = b)"
    by (rule div_mod_eq)
  finally show ?thesis .
qed

lemma length_digits4: "length (digits4 n) = 4"
  by (simp add: digits4_def length_digits2)

lemma iso_date_less:
  assumes "y < 10000" "y' < 10000" "m < 100" "m' < 100" "d < 100" "d' < 100"
  shows "(iso_date y m d < iso_date y' m' d') =
         (y < y' \<or> y = y' \<and> (m < m' \<or> m = m' \<and> d < d'))"
  using assms
  by (simp add: iso_date_def append_less_same_length length_digits4 length_digits2
      digits4_less digits4_eq digits2_less digits2_eq)

lemma iso_date_le:
  assumes "y < 10000" "y' < 10000" "m < 100" "m' < 100" "d < 100" "d' < 100"
  shows "(iso_date y m d \<le> iso_date y' m' d') = date_le (y, m, d) (y', m', d')"
proof -
  have "(iso_date y m d \<le> iso_date y' m' d') = (\<not> iso_date y' m' d' < iso_date y m d)"
    by auto
  also have "\<dots> = (\<not> (y' < y \<or> y' = y \<and> (m' < m \<or> m' = m \<and> d' < d)))"
    using assms by (simp add: iso_date_less)
  also have "\<dots> = date_le (y, m, d) (y', m', d')"
    by (auto simp: date_le_def)
  finally show ?thesis .
qed

lemma valid_date_bounds:
  assumes "valid_date (y, m, d)"
  shows "y < 10000" "m < 100" "d < 100"
proof -
  have "days_in_month y m \<le> 31"
    by (simp add: days_in_month_def)
  with assms show "y < 10000" "m < 100" "d < 100"
    by (auto simp: valid_date_def)
qed

text \<open>The order of the date texts is the order of the calendar.\<close>

lemma date_text_le:
  assumes "valid_date a" "valid_date b"
  shows "(date_text a \<le> date_text b) = date_le a b"
proof -
  obtain y m d y' m' d' where ab: "a = (y, m, d)" "b = (y', m', d')"
    by (metis prod_cases3)
  with assms show ?thesis
    using valid_date_bounds [of y m d] valid_date_bounds [of y' m' d']
    by (simp add: date_text_def iso_date_le)
qed

lemma digit_digit_of: "is_digit c \<Longrightarrow> digit (digit_of c) = c"
  by (simp add: is_digit_def digit_of_def digit_def)

lemma digit_of_less: "is_digit c \<Longrightarrow> digit_of c < 10"
  by (auto simp: is_digit_def digit_of_def)

lemma digits2_of: "a < 10 \<Longrightarrow> b < 10 \<Longrightarrow> digits2 (10 * a + b) = [digit a, digit b]"
  by (simp add: digits2_def)

lemma digits4_of: "p < 100 \<Longrightarrow> q < 100 \<Longrightarrow> digits4 (100 * p + q) = digits2 p @ digits2 q"
  by (simp add: digits4_def)

text \<open>A text that is read as a date is the text of that date.\<close>

lemma parse_iso_date_text:
  assumes "parse_iso_date s = Some a"
  shows "valid_date a \<and> s = date_text a"
  using assms
proof (cases s rule: parse_iso_date.cases)
  case (1 y1 y2 y3 y4 s1 m1 m2 s2 d1 d2)
  with assms have sep: "s1 = CHR ''-''" "s2 = CHR ''-''"
    and dig: "is_digit y1" "is_digit y2" "is_digit y3" "is_digit y4"
      "is_digit m1" "is_digit m2" "is_digit d1" "is_digit d2"
    by (simp_all split: if_splits)
  let ?a = "(100 * (10 * digit_of y1 + digit_of y2) + (10 * digit_of y3 + digit_of y4),
             10 * digit_of m1 + digit_of m2, 10 * digit_of d1 + digit_of d2)"
  from 1 assms sep dig have a: "a = ?a" and valid: "valid_date a"
    by (simp_all add: Let_def split: if_splits)
  have small: "digit_of y1 < 10" "digit_of y2 < 10" "digit_of y3 < 10" "digit_of y4 < 10"
    "digit_of m1 < 10" "digit_of m2 < 10" "digit_of d1 < 10" "digit_of d2 < 10"
    using dig by (simp_all add: digit_of_less)
  then have two: "10 * digit_of y1 + digit_of y2 < 100" "10 * digit_of y3 + digit_of y4 < 100"
    by simp_all
  have year: "digits4 (100 * (10 * digit_of y1 + digit_of y2) + (10 * digit_of y3 + digit_of y4)) =
      [y1, y2, y3, y4]"
    by (simp only: digits4_of [OF two] digits2_of [OF small(1,2)] digits2_of [OF small(3,4)]
        digit_digit_of [OF dig(1)] digit_digit_of [OF dig(2)] digit_digit_of [OF dig(3)]
        digit_digit_of [OF dig(4)] append.simps)
  have month: "digits2 (10 * digit_of m1 + digit_of m2) = [m1, m2]"
    by (simp only: digits2_of [OF small(5,6)] digit_digit_of [OF dig(5)]
        digit_digit_of [OF dig(6)])
  have day: "digits2 (10 * digit_of d1 + digit_of d2) = [d1, d2]"
    by (simp only: digits2_of [OF small(7,8)] digit_digit_of [OF dig(7)]
        digit_digit_of [OF dig(8)])
  have "date_text ?a = [y1, y2, y3, y4, CHR ''-'', m1, m2, CHR ''-'', d1, d2]"
    unfolding date_text_def iso_date_def prod.case year month day by simp
  with 1 sep a valid show ?thesis by simp
qed simp_all

lemma letter_T_not_digit: "n < 10 \<Longrightarrow> digit n \<noteq> CHR ''T''"
proof
  assume "n < 10" and "digit n = CHR ''T''"
  then have "of_char (digit n) = (84 :: nat)" by simp
  with \<open>n < 10\<close> show False by (simp add: digit_def)
qed

lemma letter_T_not_in_date:
  assumes "y < 10000" "m < 100" "d < 100"
  shows "CHR ''T'' \<notin> set (iso_date y m d)"
proof -
  have "y div 100 div 10 < 10" "y div 100 mod 10 < 10" "y mod 100 div 10 < 10"
    "y mod 100 mod 10 < 10" "m div 10 < 10" "m mod 10 < 10" "d div 10 < 10" "d mod 10 < 10"
    using assms by simp_all
  then show ?thesis
    by (simp add: iso_date_def digits4_def digits2_def letter_T_not_digit
        letter_T_not_digit [THEN not_sym])
qed

text \<open>The date part of the clock's text is the text of today's date.\<close>

lemma today_of_clock:
  assumes "valid_date (clock_date t)"
  shows "today_of t = date_text (clock_date t)"
proof -
  have bounds: "utc_year t < 10000" "utc_month t < 100" "utc_day t < 100"
    using valid_date_bounds [of "utc_year t" "utc_month t" "utc_day t"] assms
    by (simp_all add: clock_date_def)
  obtain rest where "toISOString t =
      iso_date (utc_year t) (utc_month t) (utc_day t) @ CHR ''T'' # rest"
    using bounds(1) by (simp add: toISOString_def iso_date_def)
  moreover have "CHR ''T'' \<notin> set (iso_date (utc_year t) (utc_month t) (utc_day t))"
    using bounds by (rule letter_T_not_in_date)
  ultimately have "split_on CHR ''T'' (toISOString t) =
      iso_date (utc_year t) (utc_month t) (utc_day t) # split_on CHR ''T'' rest"
    by (simp add: split_on_append)
  then show ?thesis
    by (simp add: today_of_def date_text_def clock_date_def)
qed

section \<open>The registry client\<close>

text \<open>
  Once the page has been fetched, a rejected or unparsable answer to the query, an answer
  of another shape and an empty result set give (null, false), and what
  verifyCertificate can still throw is the TypeError of a conversion.
\<close>

lemma verifyCertificate_query_failed:
  assumes "page_text e = Some text" and "ajax_json e query (wdtNonce_of text) = None"
  shows "verifyCertificate e query = Inr (Null, False)"
  using assms by (simp add: verifyCertificate_def)

lemma verifyCertificate_no_rows:
  assumes "page_text e = Some text"
    and "ajax_json e query (wdtNonce_of text) = Some responseJson"
    and "rows_of responseJson = []"
  shows "verifyCertificate e query = Inr (Null, False)"
  using assms
  by (auto simp: verifyCertificate_def rows_of_def split: jsval.splits)

lemma primitive_text_not_FetchRejected: "primitive_text v \<noteq> Inl FetchRejected"
  using toString_not_FetchRejected(1) [of v]
  by (cases v) (auto split: sum.splits simp del: toString.simps)

lemma comparison_not_FetchRejected:
  "ge_today v today \<noteq> Inl FetchRejected" "le_today v today \<noteq> Inl FetchRejected"
  using primitive_text_not_FetchRejected [of v]
  by (auto simp: ge_today_def le_today_def split: sum.splits option.splits)

lemma validCertificate_of_not_FetchRejected:
  "validCertificate_of data row today query \<noteq> Inl FetchRejected"
proof -
  let ?until = "nullish (at_index row 8) Null" and ?after = "nullish (at_index row 7) Null"
  have "ge_today ?until today \<noteq> Inl FetchRejected" "le_today ?after today \<noteq> Inl FetchRejected"
    "toString (at_index row 1) \<noteq> Inl FetchRejected"
    by (simp_all add: comparison_not_FetchRejected toString_not_FetchRejected)
  then show ?thesis
    unfolding validCertificate_of_def Let_def
    by (cases "ge_today ?until today"; cases "le_today ?after today";
        cases "toString (at_index row 1)") (auto split: bool.splits)
qed

lemma verifyCertificate_page_fetched:
  assumes "page_text e = Some text"
  shows "verifyCertificate e query \<noteq> Inl FetchRejected"
proof (cases "ajax_json e query (wdtNonce_of text)")
  case None
  with assms show ?thesis by (simp add: verifyCertificate_def)
next
  case (Some responseJson)
  show ?thesis
  proof (cases "get_prop responseJson ''data''")
    case (Arr data)
    show ?thesis
    proof (cases "at_index data 0")
      case inner: (Arr row)
      with assms Some Arr show ?thesis
        using validCertificate_of_not_FetchRejected [of data row "today_of (verify_clock e)" query]
        by (cases "validCertificate_of data row (today_of (verify_clock e)) query")
          (auto simp: verifyCertificate_def)
    qed (use assms Some Arr in \<open>auto simp: verifyCertificate_def\<close>)
  qed (use assms Some in \<open>auto simp: verifyCertificate_def\<close>)
qed

lemma verifyCertificate_own_toString:
  "verifyCertificate own_toString_registry example_certificateId = Inl TypeError"
  by code_simp

text \<open>
  C2 (the code departs from the claim). The claim: verify never throws to its caller, any
  network failure yields (null, false). The fetch of the database page, which
  provides the nonce, is awaited outside the try block: when it is rejected, so is
  verifyCertificate.
\<close>

theorem verifyCertificate_page_fetch_rejected:
  "verifyCertificate (registry_stub\<lparr>page_text := None\<rparr>) example_certificateId =
     Inl FetchRejected"
  by (simp add: verifyCertificate_def)

section \<open>The validity rule\<close>

lemma date_cell_cases:
  assumes "date_cell c"
  obtains "c = Undefined \<or> c = Null"
  | "\<exists>b. c = Bool b" | "\<exists>n. c = Num n"
  | s a where "c = Str s" "parse_iso_date s = Some a"
  using assms by (cases c) (auto simp: date_cell_def)

text \<open>
  On a date cell, the comparison with today's date text is the comparison of the dates;
  a cell that is not a text compares false.
\<close>

lemma ge_today_date_cell:
  assumes "date_cell c" "valid_date today"
  shows "ge_today c (date_text today) =
           Inr (case cell_date c of Some until \<Rightarrow> date_le today until | None \<Rightarrow> False)"
  using assms(1)
proof (cases rule: date_cell_cases)
  case (4 s a)
  then have "valid_date a" "s = date_text a"
    using parse_iso_date_text by simp_all
  with 4 assms(2) show ?thesis
    by (simp add: ge_today_def cell_date_def date_text_le)
qed (auto simp: ge_today_def cell_date_def)

lemma le_today_date_cell:
  assumes "date_cell c" "valid_date today"
  shows "le_today c (date_text today) =
           Inr (case cell_date c of Some validFrom \<Rightarrow> date_le validFrom today | None \<Rightarrow> False)"
  using assms(1)
proof (cases rule: date_cell_cases)
  case (4 s a)
  then have "valid_date a" "s = date_text a"
    using parse_iso_date_text by simp_all
  with 4 assms(2) show ?thesis
    by (simp add: le_today_def cell_date_def date_text_le)
qed (auto simp: le_today_def cell_date_def)

lemma cell_date_nullish:
  "nullish c Null = Null \<Longrightarrow> cell_date c = None"
  by (auto simp: nullish_def cell_date_def split: if_splits)

lemma validCertificate_of_dated:
  assumes "date_cell (at_index row 7)" "date_cell (at_index row 8)"
    and "converts (at_index row 1)" and "valid_date today"
  shows "validCertificate_of data row (date_text today) query =
           Inr (length data = 1 \<and>
                toString (at_index row 1) = Inr query \<and>
                (case (cell_date (at_index row 7), cell_date (at_index row 8)) of
                   (Some validFrom, Some until) \<Rightarrow>
                     date_le validFrom today \<and> date_le today until
                 | _ \<Rightarrow> False))"
proof -
  obtain subject where subject: "toString (at_index row 1) = Inr subject"
    using converts_Inr [OF assms(3)] by blast
  show ?thesis
  proof (cases "nullish (at_index row 8) Null = Null \<or> nullish (at_index row 7) Null = Null")
    case True
    then have "cell_date (at_index row 8) = None \<or> cell_date (at_index row 7) = None"
      by (auto dest: cell_date_nullish)
    with True show ?thesis
      by (auto simp: validCertificate_of_def Let_def split: option.splits)
  next
    case False
    then have same: "nullish (at_index row 8) Null = at_index row 8"
      "nullish (at_index row 7) Null = at_index row 7"
      by (auto simp: nullish_def split: if_splits)
    with False subject show ?thesis
      by (auto simp: validCertificate_of_def Let_def
          ge_today_date_cell [OF assms(2,4)] le_today_date_cell [OF assms(1,4)]
          split: option.splits bool.splits)
  qed
qed

text \<open>
  C4, as stated: the verdict is true exactly when there is one row with the queried
  identifier and today's date lies within its two dates. A row that is valid from
  01.01.2030 until 31.12.2020 has no date within which 2025-06-01 lies, and the verdict
  is true: the cells are compared with today's date text as strings.
\<close>

theorem day_first_dates_counterexample:
  "verifyCertificate day_first_registry example_certificateId =
     Inr (Str ''31.12.2020'', True) \<and>
   \<not> spec_valid [example_row example_certificateId ''01.01.2030'' ''31.12.2020'']
       example_certificateId (2025, 6, 1)"
  by code_simp

text \<open>
  C4, amended. For every answer of the registry to the table query whose first row has
  date cells that are date texts YYYY-MM-DD or no texts (null, absent, a number, a
  boolean) and a subject identifier that converts to a string, and for a clock in the
  years 0 to 9999: the verdict is true exactly when the answer has exactly one row, the
  subject identifier of the row equals the queried identifier as a string, both dates of
  the row are present and today's date (UTC) is not before the first and not after the
  second. The date returned with the verdict is that of the first row, or null: a
  negative result is (null, false) or (validUntil, false).
\<close>

theorem verifyCertificate_validity:
  assumes "page_text e = Some text"
    and "ajax_json e query (wdtNonce_of text) = Some responseJson"
    and "dated_rows (rows_of responseJson)"
    and "valid_date (clock_date (verify_clock e))"
  shows "verifyCertificate e query =
           Inr (reported_validUntil (rows_of responseJson),
                spec_valid (rows_of responseJson) query (clock_date (verify_clock e)))"
proof (cases "get_prop responseJson ''data''")
  case (Arr data)
  then have obj: "truthy responseJson"
    by (cases responseJson) auto
  have today: "today_of (verify_clock e) = date_text (clock_date (verify_clock e))"
    using assms(4) by (rule today_of_clock)
  show ?thesis
  proof (cases data)
    case Nil
    with Arr obj assms(1,2) show ?thesis
      by (simp add: verifyCertificate_def rows_of_def reported_validUntil_def spec_valid_def)
  next
    case (Cons first rest)
    show ?thesis
    proof (cases first)
      case (Arr row)
      with Cons \<open>get_prop responseJson ''data'' = Arr data\<close> assms(3)
      have cells: "date_cell (at_index row 7)" "date_cell (at_index row 8)"
        "converts (at_index row 1)"
        by (simp_all add: dated_rows_def rows_of_def)
      have "validCertificate_of data row (today_of (verify_clock e)) query =
          Inr (spec_valid data query (clock_date (verify_clock e)))"
        unfolding today validCertificate_of_dated [OF cells assms(4)]
        using Cons Arr by (cases rest) (auto simp: spec_valid_def split: option.splits)
      with Cons Arr have verdict:
        "validCertificate_of (Arr row # rest) row (today_of (verify_clock e)) query =
          Inr (spec_valid (Arr row # rest) query (clock_date (verify_clock e)))"
        by simp
      from Cons Arr \<open>get_prop responseJson ''data'' = Arr data\<close> obj assms(1,2) show ?thesis
        by (simp add: verifyCertificate_def rows_of_def reported_validUntil_def at_index_def
            verdict)
    qed (use Cons \<open>get_prop responseJson ''data'' = Arr data\<close> obj assms(1,2) in
        \<open>auto simp: verifyCertificate_def rows_of_def reported_validUntil_def spec_valid_def
           at_index_def\<close>)
  qed
qed (use assms(1,2) in
    \<open>auto simp: verifyCertificate_def rows_of_def reported_validUntil_def spec_valid_def\<close>)

theorem verifyCertificate_validity_witness:
  "page_text last_day_registry = Some example_page \<and>
   ajax_json last_day_registry example_certificateId (wdtNonce_of example_page) =
     Some (Obj [(''data'', Arr [example_row example_certificateId ''2020-01-01'' ''2999-01-01''])]) \<and>
   dated_rows [example_row example_certificateId ''2020-01-01'' ''2999-01-01''] \<and>
   valid_date (2999, 1, 1) \<and>
   spec_valid [example_row example_certificateId ''2020-01-01'' ''2999-01-01'']
     example_certificateId (2999, 1, 1) \<and>
   verifyCertificate last_day_registry example_certificateId = Inr (Str ''2999-01-01'', True)"
proof -
  let ?answer = "Obj [(''data'', Arr [example_row example_certificateId ''2020-01-01'' ''2999-01-01''])]"
  have page: "page_text last_day_registry = Some example_page"
    by (simp add: last_day_registry_def registry_stub_def)
  have answer: "ajax_json last_day_registry example_certificateId (wdtNonce_of example_page) =
      Some ?answer"
    by (simp add: last_day_registry_def registry_stub_def)
  have rows: "rows_of ?answer = [example_row example_certificateId ''2020-01-01'' ''2999-01-01'']"
    by (simp add: rows_of_def)
  have dated: "dated_rows (rows_of ?answer)"
    unfolding rows by code_simp
  have clock: "clock_date (verify_clock last_day_registry) = (2999, 1, 1)"
    by (simp add: last_day_registry_def clock_date_def noon_def)
  have valid: "valid_date (clock_date (verify_clock last_day_registry))"
    unfolding clock by code_simp
  have within: "spec_valid [example_row example_certificateId ''2020-01-01'' ''2999-01-01'']
      example_certificateId (2999, 1, 1)"
    by code_simp
  have until: "reported_validUntil
      [example_row example_certificateId ''2020-01-01'' ''2999-01-01''] = Str ''2999-01-01''"
    by code_simp
  show ?thesis
    using verifyCertificate_validity [OF page answer dated valid] page answer dated valid
      within until
    by (simp add: rows clock)
qed

text \<open>
  The day after, the certificate is no longer valid; on the examples the code and the
  rule agree.
\<close>

lemma day_after_last_day:
  "verifyCertificate (registry_stub\<lparr>verify_clock := noon 2999 1 2 0\<rparr>) example_certificateId =
     Inr (Str ''2999-01-01'', False)"
  by code_simp

section \<open>Uploads\<close>

text \<open>
  The gateway's upload route answers 400 and leaves the store alone when a field of the
  body is missing.
\<close>

lemma upload_on_end_missing_field:
  assumes "\<not> truthy (get_prop (nullish p (Obj [])) ''productId'') \<or>
           \<not> truthy (get_prop (nullish p (Obj [])) ''file'') \<or>
           \<not> truthy (get_prop (nullish p (Obj [])) ''certificateId'')"
  shows "fst (fst (upload_on_end cfg e Buffer_from (Some p) st)) = 400 \<and>
         snd (upload_on_end cfg e Buffer_from (Some p) st) = st"
  using assms by (auto simp: upload_on_end_def Let_def)

text \<open>
  C1 (the code departs from the claim). The claim: an upload with an absent argument
  returns false without asking the registry and adds no product to list(). An upload
  request without productId, with a certificate id that the registry confirms, is
  answered with status true, and list() then holds the empty product id.
\<close>

theorem upload_without_productId_stored:
  "fst (handleRequest mock_config registry_stub (Str ''upload'') Undefined (Str ''JVBERi0='')
          (Str example_certificateId) empty_storage) =
     Inr (Some [(''operationType'', FStr ''uploadResponse''), (''status'', FBool True)]) \<and>
   listCertificates mock_config registry_stub
     (snd (handleRequest mock_config registry_stub (Str ''upload'') Undefined (Str ''JVBERi0='')
             (Str example_certificateId) empty_storage)) = ['''']"
  by code_simp

text \<open>
  C6 (the code departs from the claim). The claim: an upload whose certificate cannot
  complete the registry verification is rejected by returning false. When the fetch of
  the database page is rejected, uploadCertificate throws; nothing is stored.
\<close>

theorem uploadCertificate_page_fetch_rejected:
  "uploadCertificate mock_config (registry_stub\<lparr>page_text := None\<rparr>) (Str ''p1'')
     (Str ''JVBERi0='') (Str example_certificateId) empty_storage =
   (Inl FetchRejected, empty_storage)"
  by (simp add: uploadCertificate_def verifyCertificate_def)

section \<open>The dispatcher\<close>

text \<open>
  C8. For every operationType other than upload, delete, deleteProductCertificate, list
  and listProductCertificates, the dispatcher returns no response value (undefined) and
  leaves the store as it is.
\<close>

theorem handleRequest_unrecognized:
  assumes "requestType \<notin> {Str ''upload'', Str ''delete'', Str ''deleteProductCertificate'',
                         Str ''list'', Str ''listProductCertificates''}"
  shows "handleRequest cfg e requestType pid file certificateId st = (Inr None, st)"
  using assms by (simp add: handleRequest_def)

theorem handleRequest_unrecognized_witness:
  "Str ''invalidOperation'' \<notin> {Str ''upload'', Str ''delete'', Str ''deleteProductCertificate'',
                               Str ''list'', Str ''listProductCertificates''} \<and>
   handleRequest mock_config registry_stub (Str ''invalidOperation'') (Str ''test'') Undefined
     Undefined empty_storage = (Inr None, empty_storage)"
  using handleRequest_unrecognized [of "Str ''invalidOperation''" mock_config registry_stub
      "Str ''test''" Undefined Undefined empty_storage]
  by simp

text \<open>
  C3, as stated: the response to "delete" and to "deleteProductCertificate" has the
  fields productId, certificateId and status. The response to "delete" has neither
  productId nor certificateId.
\<close>

theorem delete_response_counterexample:
  "fst (handleRequest mock_config registry_stub (Str ''delete'') (Str ''p1'') Undefined
          (Str ''c1'') empty_storage) =
     Inr (Some [(''operationType'', FStr ''deleteResponse''), (''status'', FBool False)]) \<and>
   \<not> has_field [(''operationType'', FStr ''deleteResponse''), (''status'', FBool False)]
       ''productId'' \<and>
   \<not> has_field [(''operationType'', FStr ''deleteResponse''), (''status'', FBool False)]
       ''certificateId''"
  by code_simp

text \<open>
  C3, amended. Both operation types call the single-certificate delete of the store,
  with the identifiers as received (the empty string for one that is missing). The
  response to "delete" is {operationType: "deleteResponse", status}; the response to
  "deleteProductCertificate" is {operationType: "deleteProductCertificateResponse",
  productId, certificateId, status}. In both, status is the result of the store call,
  and what the store call throws the dispatcher throws.
\<close>

theorem delete_responses:
  "handleRequest cfg e (Str ''delete'') pid file certificateId st =
     (case deleteProductCertificate cfg e (defaulted pid (Str []))
             (defaulted certificateId (Str [])) st of
        (Inl x, st') \<Rightarrow> (Inl x, st')
      | (Inr status, st') \<Rightarrow>
          (Inr (Some [(''operationType'', FStr ''deleteResponse''),
                      (''status'', FBool status)]), st')) \<and>
   handleRequest cfg e (Str ''deleteProductCertificate'') pid file certificateId st =
     (case deleteProductCertificate cfg e (defaulted pid (Str []))
             (defaulted certificateId (Str [])) st of
        (Inl x, st') \<Rightarrow> (Inl x, st')
      | (Inr status, st') \<Rightarrow>
          (Inr (Some [(''operationType'', FStr ''deleteProductCertificateResponse''),
                      (''productId'', FVal (defaulted pid (Str []))),
                      (''certificateId'', FVal (defaulted certificateId (Str []))),
                      (''status'', FBool status)]), st'))"
  by (simp add: handleRequest_def Let_def)

text \<open>With identifiers that are strings the store call returns, and so does the dispatcher.\<close>

lemma deleteProductCertificate_returns:
  assumes "converts pid" "converts certId"
  shows "\<exists>status. fst (deleteProductCertificate cfg e pid certId st) = Inr status"
proof -
  obtain k t where conv: "toString pid = Inr k" "toString certId = Inr t"
    using assms converts_Inr by blast
  have found: "\<exists>r. find_certificate certId cs = Inr r" for cs
    using conv(2) by (induction cs) auto
  show ?thesis
  proof (cases "USE_MOCK_STORAGE cfg")
    case True
    then show ?thesis
      using conv found [of "certificates (the (Map_get (mockStorage st) k))"]
      by (auto simp: deleteProductCertificate_def caught_def Let_def
          split: option.splits sum.splits)
  next
    case False
    then show ?thesis
      using conv found [of "certificates (the (Map_get (firestore st) k))"]
      by (auto simp: deleteProductCertificate_def caught_def Let_def
          split: option.splits sum.splits)
  qed
qed

section \<open>Identifiers are used through their text\<close>

text \<open>
  C10. Each store operation uses its identifier arguments only through String(x):
  calling it with a value x is calling it with the string String(x), which for the
  number n is the text of n and for a string is the string itself. The results and the
  storage left behind are the same.
\<close>

theorem identifiers_coerced:
  "uploadCertificate cfg e x file y st =
     uploadCertificate cfg e (stringified x) file (stringified y) st \<and>
   listProductCertificates cfg e x st = listProductCertificates cfg e (stringified x) st \<and>
   deleteProductCertificate cfg e x y st =
     deleteProductCertificate cfg e (stringified x) (stringified y) st \<and>
   deleteCertificate cfg e x st = deleteCertificate cfg e (stringified x) st \<and>
   stringified (Num n) = Str n \<and> stringified (Str s) = Str s"
  unfolding uploadCertificate_def listProductCertificates_def
    deleteProductCertificate_def deleteCertificate_def
    toString_stringified find_certificate_stringified caught_stringified
  by (simp add: stringified_def)

text \<open>Product 42 and product "42" are the same product.\<close>

lemma product_42:
  "listProductCertificates mock_config registry_stub (Str ''42'')
     (snd (uploadCertificate mock_config registry_stub (Num ''42'') (Str ''JVBERi0='')
             (Str example_certificateId) empty_storage)) =
   [example_certificate ''mock://certificates/'' ''42'']"
  by code_simp

section \<open>Invariants of the storage\<close>

lemma sound_parts: "sound st = (keyed st \<and> no_empty_record st \<and> all_verified st)"
  by (auto simp: sound_def keyed_def no_empty_record_def all_verified_def sound_entry_def
      list_all_iff)

lemma sound_empty_storage: "sound empty_storage"
  by (simp add: sound_def all_records_def empty_storage_def)

lemma sound_maps:
  "sound st = (list_all sound_entry (mockStorage st) \<and> list_all sound_entry (firestore st))"
  by (simp add: sound_def all_records_def)

lemma sound_pushed:
  assumes "list_all sound_entry m" and "verified c"
  shows "sound_entry
           (k, (case Map_get m k of Some p \<Rightarrow> p
                | None \<Rightarrow> \<lparr>productId = k, certificates = []\<rparr>)
               \<lparr>certificates :=
                  certificates (case Map_get m k of Some p \<Rightarrow> p
                                | None \<Rightarrow> \<lparr>productId = k, certificates = []\<rparr>) @ [c]\<rparr>)"
proof (cases "Map_get m k")
  case None
  with assms(2) show ?thesis by (simp add: sound_entry_def)
next
  case (Some p)
  then have "sound_entry (k, p)"
    using assms(1) by (rule Map_get_holds)
  with Some assms(2) show ?thesis by (simp add: sound_entry_def)
qed

lemma sound_appended:
  assumes "list_all sound_entry m" and "verified c"
  shows "sound_entry
           (k, \<lparr>productId = k,
                certificates =
                  (case Map_get m k of Some existing \<Rightarrow> certificates existing
                   | None \<Rightarrow> []) @ [c]\<rparr>)"
proof (cases "Map_get m k")
  case None
  with assms(2) show ?thesis by (simp add: sound_entry_def)
next
  case (Some p)
  then have "sound_entry (k, p)"
    using assms(1) by (rule Map_get_holds)
  with Some assms(2) show ?thesis by (simp add: sound_entry_def)
qed

lemma sound_filtered:
  assumes "Map_get m k = Some p" and "list_all sound_entry m"
    and "filter keep (certificates p) \<noteq> []"
  shows "sound_entry (k, p\<lparr>certificates := filter keep (certificates p)\<rparr>)"
proof -
  have "sound_entry (k, p)"
    using assms(1,2) by (rule Map_get_holds)
  with assms(3) show ?thesis
    by (auto simp: sound_entry_def list_all_iff)
qed

lemma sound_uploadCertificate:
  assumes "sound st"
  shows "sound (snd (uploadCertificate cfg e pid file certificateId st))"
proof (cases "toString certificateId")
  case (Inl x)
  with assms show ?thesis by (simp add: uploadCertificate_def)
next
  case searchTerm: (Inr searchTerm)
  show ?thesis
  proof (cases "verifyCertificate e searchTerm")
    case (Inl x)
    with searchTerm assms show ?thesis by (simp add: uploadCertificate_def)
  next
    case (Inr verdict)
    obtain until valid where verdict: "verdict = (until, valid)"
      by (cases verdict)
    show ?thesis
    proof (cases "toString pid")
      case (Inl x)
      with searchTerm Inr verdict assms show ?thesis by (simp add: uploadCertificate_def)
    next
      case productIdStr: (Inr productIdStr)
      show ?thesis
      proof (cases valid)
        case False
        with searchTerm Inr verdict productIdStr assms show ?thesis
          by (simp add: uploadCertificate_def)
      next
        case True
        show ?thesis
        proof (cases "USE_MOCK_STORAGE cfg")
          case mock: True
          from assms have "list_all sound_entry (mockStorage st)"
            by (simp add: sound_maps)
          then show ?thesis
            using searchTerm Inr verdict productIdStr True mock assms
            by (simp add: uploadCertificate_def Let_def sound_maps list_all_Map_set
                sound_pushed)
        next
          case durable: False
          from assms have "list_all sound_entry (firestore st)"
            by (simp add: sound_maps)
          then show ?thesis
            using searchTerm Inr verdict productIdStr True durable assms
            by (simp add: uploadCertificate_def Let_def sound_maps list_all_Map_set
                sound_appended)
        qed
      qed
    qed
  qed
qed

lemma sound_deleteCertificate:
  assumes "sound st"
  shows "sound (snd (deleteCertificate cfg e pid st))"
  using assms
  by (cases "toString pid")
    (auto simp: deleteCertificate_def Let_def sound_maps list_all_Map_delete
      split: prod.splits bool.splits)

lemma snd_caught: "snd (caught certId st) = st"
  by (cases "toString certId") (simp_all add: caught_def)

lemma sound_bucket: "sound (st\<lparr>bucket := b\<rparr>) = sound st"
  by (simp add: sound_maps)

lemma sound_deleteProductCertificate:
  assumes "sound st"
  shows "sound (snd (deleteProductCertificate cfg e pid certId st))"
proof (cases "toString pid")
  case (Inl x)
  with assms show ?thesis by (simp add: deleteProductCertificate_def)
next
  case (Inr k)
  show ?thesis
  proof (cases "USE_MOCK_STORAGE cfg")
    case True
    from assms have "list_all sound_entry (mockStorage st)"
      by (simp add: sound_maps)
    then show ?thesis
      using Inr True assms
      by (auto simp: deleteProductCertificate_def Let_def sound_maps list_all_Map_delete
          list_all_Map_set sound_filtered snd_caught
          split: option.splits sum.splits)
  next
    case False
    from assms have "list_all sound_entry (firestore st)"
      by (simp add: sound_maps)
    then show ?thesis
      using Inr False assms
      by (auto simp: deleteProductCertificate_def Let_def sound_maps list_all_Map_delete
          list_all_Map_set sound_filtered snd_caught
          split: option.splits sum.splits)
  qed
qed

lemma sound_perform: "sound st \<Longrightarrow> sound (perform cfg st op)"
  by (cases op)
    (simp_all add: sound_uploadCertificate sound_deleteCertificate
      sound_deleteProductCertificate)

lemma sound_foldl: "sound st \<Longrightarrow> sound (foldl (perform cfg) st ops)"
  by (induction ops arbitrary: st) (simp_all add: sound_perform)

lemma sound_run: "sound (run cfg ops)"
  by (simp add: run_def sound_foldl sound_empty_storage)

text \<open>
  After every sequence of uploads and deletions, no product record in storage has an
  empty certificate sequence, and every certificate record has verified = true. An upload
  whose certificate the registry client finds not valid returns false and stores nothing.
\<close>

lemma no_empty_record_run: "no_empty_record (run cfg ops)"
  using sound_run [of cfg ops] by (simp add: sound_parts)

lemma stored_records_verified: "all_verified (run cfg ops)"
  using sound_run [of cfg ops] by (simp add: sound_parts)

lemma uploadCertificate_not_valid:
  assumes "toString certificateId = Inr searchTerm"
    and "verifyCertificate e searchTerm = Inr (until, False)"
    and "converts pid"
  shows "uploadCertificate cfg e pid file certificateId st = (Inr False, st)"
  using assms converts_Inr [OF assms(3)] by (auto simp: uploadCertificate_def)

section \<open>Deleting certificates\<close>

lemma find_certificate_absent:
  assumes "toString certId = Inr t" and "\<forall>c \<in> set cs. cert_id c \<noteq> t"
  shows "find_certificate certId cs = Inr None"
  using assms by (induction cs) auto

lemma find_certificate_found:
  assumes "find_certificate certId cs = Inr (Some c)"
  shows "\<exists>t. toString certId = Inr t \<and> cert_id c = t \<and> c \<in> set cs"
  using assms by (induction cs) (auto split: sum.splits if_splits)

text \<open>
  A delete for a product that does not exist, or that holds no certificate with the id,
  returns false and leaves the storage as it is, in both backends and whatever the
  storage calls do.
\<close>

lemma deleteProductCertificate_absent:
  assumes "toString pid = Inr k" and "toString certId = Inr t"
    and "\<forall>c \<in> set (stored_certificates cfg st k). cert_id c \<noteq> t"
  shows "deleteProductCertificate cfg e pid certId st = (Inr False, st)"
proof (cases "USE_MOCK_STORAGE cfg")
  case True
  with assms show ?thesis
    by (auto simp: deleteProductCertificate_def stored_certificates_def product_record_def
        find_certificate_absent split: option.splits)
next
  case False
  with assms show ?thesis
    by (auto simp: deleteProductCertificate_def stored_certificates_def product_record_def
        find_certificate_absent caught_def split: option.splits)
qed

text \<open>
  After a delete that returned true, in the mock backend, and in the durable backend
  when the deletion of the document was not rejected, the product holds no certificate
  with the id, and a second delete returns false.
\<close>

lemma deleted_certificate_absent:
  assumes "deleteProductCertificate cfg e pid certId st = (Inr True, st')"
    and "USE_MOCK_STORAGE cfg \<or> (\<forall>k. toString pid = Inr k \<longrightarrow> \<not> rejects e (DocDelete k))"
  shows "\<exists>k t. toString pid = Inr k \<and> toString certId = Inr t \<and>
               (\<forall>c \<in> set (stored_certificates cfg st' k). cert_id c \<noteq> t)"
proof (cases "toString pid")
  case (Inl x)
  with assms(1) show ?thesis by (simp add: deleteProductCertificate_def)
next
  case (Inr k)
  show ?thesis
  proof (cases "USE_MOCK_STORAGE cfg")
    case True
    with Inr assms(1) show ?thesis
      by (auto simp: deleteProductCertificate_def stored_certificates_def product_record_def
          Let_def caught_def Map_get_Map_set Map_get_Map_delete
          split: option.splits sum.splits if_splits dest!: find_certificate_found)
  next
    case False
    with Inr assms show ?thesis
      by (auto simp: deleteProductCertificate_def stored_certificates_def product_record_def
          Let_def caught_def Map_get_Map_set Map_get_Map_delete
          split: option.splits sum.splits if_splits dest!: find_certificate_found)
  qed
qed

lemma delete_again_refused:
  assumes "deleteProductCertificate cfg e pid certId st = (Inr True, st')"
    and "USE_MOCK_STORAGE cfg \<or> (\<forall>k. toString pid = Inr k \<longrightarrow> \<not> rejects e (DocDelete k))"
  shows "deleteProductCertificate cfg e' pid certId st' = (Inr False, st')"
  using deleted_certificate_absent [OF assms] deleteProductCertificate_absent by blast

text \<open>
  C7 (the code departs from the claim). The claim: deleting a certificate id that is
  already deleted returns false on the second call. In the durable backend, a delete of
  the only certificate of product p1 during which the deletion of the document is
  rejected returns true and leaves the document; the second delete of the same id, with
  no failure at all, finds the certificate and returns true again.
\<close>

theorem delete_again_succeeds:
  "fst (deleteProductCertificate durable_config document_delete_rejected (Str ''p1'')
          (Str ''1748779200000-k3j9x2'') (run durable_config [example_upload ''p1''])) =
     Inr True \<and>
   fst (deleteProductCertificate durable_config registry_stub (Str ''p1'')
          (Str ''1748779200000-k3j9x2'')
          (snd (deleteProductCertificate durable_config document_delete_rejected (Str ''p1'')
                  (Str ''1748779200000-k3j9x2'')
                  (run durable_config [example_upload ''p1''])))) =
     Inr True"
  by code_simp

section \<open>Delete-on-empty\<close>

text \<open>
  When the single-certificate delete returns true on the only certificate of a product,
  in the mock backend, and in the durable backend when the deletion of the document was
  not rejected, listForProduct then returns the empty sequence and the product id is not
  in list().
\<close>

lemma delete_on_empty:
  assumes "product_record cfg (run cfg ops) k = Some p"
    and "certificates p = [c]"
    and "toString pid = Inr k"
    and "deleteProductCertificate cfg e pid certId (run cfg ops) = (Inr True, st')"
    and "USE_MOCK_STORAGE cfg \<or> \<not> rejects e (DocDelete k)"
  shows "listProductCertificates cfg e' pid st' = [] \<and> k \<notin> set (listCertificates cfg e' st')"
proof -
  have "keyed (run cfg ops)"
    using sound_run [of cfg ops] by (simp add: sound_parts)
  then have keys:
    "list_all (\<lambda>entry. productId (snd entry) = fst entry) (mockStorage (run cfg ops))"
    "list_all (\<lambda>entry. productId (snd entry) = fst entry) (firestore (run cfg ops))"
    by (simp_all add: keyed_def all_records_def)
  show ?thesis
  proof (cases "USE_MOCK_STORAGE cfg")
    case True
    with assms have "mockStorage st' = Map_delete (mockStorage (run cfg ops)) k"
      by (auto simp: deleteProductCertificate_def product_record_def Let_def caught_def
          split: sum.splits option.splits if_splits dest!: find_certificate_found)
    with True keys(1) assms(3) show ?thesis
      by (simp add: listProductCertificates_def listCertificates_def Map_get_Map_delete
          keyed_Map_delete)
  next
    case False
    with assms have "firestore st' = Map_delete (firestore (run cfg ops)) k"
      by (auto simp: deleteProductCertificate_def product_record_def Let_def caught_def
          split: sum.splits option.splits if_splits dest!: find_certificate_found)
    with False keys(2) assms(3) show ?thesis
      by (simp add: listProductCertificates_def listCertificates_def Map_get_Map_delete
          keyed_Map_delete)
  qed
qed

lemma delete_on_empty_mock:
  "deleteProductCertificate mock_config registry_stub (Str ''p1'')
     (Str ''1748779200000-k3j9x2'') (run mock_config [example_upload ''p1'']) =
     (Inr True, empty_storage)"
  by code_simp

text \<open>
  C5 (the code departs from the claim). The claim: deleting the only certificate of a
  product removes the product record, so that listForProduct then returns nothing and
  list() no longer has the product. In the durable backend the product p1 has one
  certificate; deleting it while the deletion of the document is rejected returns true,
  and afterwards the product still has the certificate and is still listed.
\<close>

theorem delete_only_certificate_document_kept:
  "listProductCertificates durable_config registry_stub (Str ''p1'')
     (run durable_config [example_upload ''p1'']) =
     [example_certificate ''gs://made-in-portugal-certificates/'' ''p1''] \<and>
   fst (deleteProductCertificate durable_config document_delete_rejected (Str ''p1'')
          (Str ''1748779200000-k3j9x2'') (run durable_config [example_upload ''p1''])) =
     Inr True \<and>
   listProductCertificates durable_config registry_stub (Str ''p1'')
     (snd (deleteProductCertificate durable_config document_delete_rejected (Str ''p1'')
             (Str ''1748779200000-k3j9x2'') (run durable_config [example_upload ''p1'']))) =
     [example_certificate ''gs://made-in-portugal-certificates/'' ''p1''] \<and>
   listCertificates durable_config registry_stub
     (snd (deleteProductCertificate durable_config document_delete_rejected (Str ''p1'')
             (Str ''1748779200000-k3j9x2'') (run durable_config [example_upload ''p1'']))) =
     [''p1'']"
  by code_simp

text \<open>
  The sibling failures in the same function are reported: when the deletion of the
  object is rejected, the delete returns false.
\<close>

lemma object_delete_rejected_reported:
  "fst (deleteProductCertificate durable_config
          (registry_stub\<lparr>rejects :=
             (\<lambda>c. c = GcsDelete ''certificates/p1_1748779200000-k3j9x2.pdf'')\<rparr>)
          (Str ''p1'') (Str ''1748779200000-k3j9x2'')
          (run durable_config [example_upload ''p1''])) = Inr False"
  by code_simp

section \<open>Listing the certificates of a product over HTTP\<close>







text \<open>For an unknown product the answer is 404 with an empty list.\<close>

lemma get_unknown_product:
  "handler mock_config registry_stub
     \<lparr>req_method = ''GET'', pathname = ''/certificates/bananao-002''\<rparr> empty_storage =
     (Responds 404 (Json [(''certificates'', FCerts [])]), empty_storage)"
  by code_simp

end
